theory Spec2Isabelle
  imports Complex_Main
begin

section \<open>Numbers\<close>

text \<open>
  A TypeScript \<open>number\<close> is modelled as an exact real number or one of the three
  non-finite values \<open>Infinity\<close>, \<open>-Infinity\<close> and \<open>NaN\<close>. Arithmetic on
  finite values is exact: the rounding of IEEE doubles and the sign of zero are not
  modelled (a division of a non-zero finite number by zero takes the zero as \<open>+0\<close>).
  The decimal literals of the source (\<open>0.5\<close>, \<open>0.07\<close>, ...) are the rationals they
  denote.
\<close>

datatype jsnum = Num real | PosInf | NegInf | NaN

text \<open>The infinity a product or quotient with a non-zero finite factor of sign \<open>a\<close> has.\<close>

definition inf_of_sign :: "real \<Rightarrow> jsnum" where
  "inf_of_sign a = (if a = 0 then NaN else if 0 < a then PosInf else NegInf)"

fun js_neg :: "jsnum \<Rightarrow> jsnum" where
  "js_neg (Num a) = Num (- a)"
| "js_neg PosInf = NegInf"
| "js_neg NegInf = PosInf"
| "js_neg NaN = NaN"

fun js_add :: "jsnum \<Rightarrow> jsnum \<Rightarrow> jsnum" where
  "js_add NaN y = NaN"
| "js_add x NaN = NaN"
| "js_add (Num a) (Num b) = Num (a + b)"
| "js_add PosInf NegInf = NaN"
| "js_add NegInf PosInf = NaN"
| "js_add PosInf y = PosInf"
| "js_add NegInf y = NegInf"
| "js_add (Num a) y = y"

definition js_sub :: "jsnum \<Rightarrow> jsnum \<Rightarrow> jsnum" where
  "js_sub x y = js_add x (js_neg y)"

fun js_mul :: "jsnum \<Rightarrow> jsnum \<Rightarrow> jsnum" where
  "js_mul NaN y = NaN"
| "js_mul x NaN = NaN"
| "js_mul (Num a) (Num b) = Num (a * b)"
| "js_mul (Num a) PosInf = inf_of_sign a"
| "js_mul (Num a) NegInf = inf_of_sign (- a)"
| "js_mul PosInf (Num b) = inf_of_sign b"
| "js_mul NegInf (Num b) = inf_of_sign (- b)"
| "js_mul PosInf PosInf = PosInf"
| "js_mul PosInf NegInf = NegInf"
| "js_mul NegInf PosInf = NegInf"
| "js_mul NegInf NegInf = PosInf"

fun js_div :: "jsnum \<Rightarrow> jsnum \<Rightarrow> jsnum" where
  "js_div NaN y = NaN"
| "js_div x NaN = NaN"
| "js_div (Num a) (Num b) = (if b = 0 then inf_of_sign a else Num (a / b))"
| "js_div (Num a) y = Num 0"
| "js_div PosInf (Num b) = (if 0 \<le> b then PosInf else NegInf)"
| "js_div NegInf (Num b) = (if 0 \<le> b then NegInf else PosInf)"
| "js_div x y = NaN"

text \<open>The comparisons \<open><=\<close> and \<open>>\<close>: false as soon as an operand is \<open>NaN\<close>.\<close>

fun js_le :: "jsnum \<Rightarrow> jsnum \<Rightarrow> bool" where
  "js_le NaN y = False"
| "js_le x NaN = False"
| "js_le (Num a) (Num b) = (a \<le> b)"
| "js_le NegInf y = True"
| "js_le x PosInf = True"
| "js_le x y = False"

fun js_gt :: "jsnum \<Rightarrow> jsnum \<Rightarrow> bool" where
  "js_gt NaN y = False"
| "js_gt x NaN = False"
| "js_gt (Num a) (Num b) = (b < a)"
| "js_gt PosInf PosInf = False"
| "js_gt PosInf y = True"
| "js_gt NegInf y = False"
| "js_gt (Num a) NegInf = True"
| "js_gt (Num a) PosInf = False"

text \<open>\<open>Math.ceil\<close>, \<open>Math.round\<close> (halves go up), \<open>Math.log\<close>, \<open>Math.max\<close>, \<open>Math.min\<close>.\<close>

fun js_ceil :: "jsnum \<Rightarrow> jsnum" where
  "js_ceil (Num a) = Num (of_int \<lceil>a\<rceil>)"
| "js_ceil x = x"

fun js_round :: "jsnum \<Rightarrow> jsnum" where
  "js_round (Num a) = Num (of_int \<lfloor>a + 1 / 2\<rfloor>)"
| "js_round x = x"

fun js_log :: "jsnum \<Rightarrow> jsnum" where
  "js_log (Num a) = (if 0 < a then Num (ln a) else if a = 0 then NegInf else NaN)"
| "js_log PosInf = PosInf"
| "js_log NegInf = NaN"
| "js_log NaN = NaN"

fun js_max :: "jsnum \<Rightarrow> jsnum \<Rightarrow> jsnum" where
  "js_max NaN y = NaN"
| "js_max x NaN = NaN"
| "js_max x y = (if js_le x y then y else x)"

fun js_min :: "jsnum \<Rightarrow> jsnum \<Rightarrow> jsnum" where
  "js_min NaN y = NaN"
| "js_min x NaN = NaN"
| "js_min x y = (if js_le x y then x else y)"

text \<open>
  \<open>Math.pow\<close> for a finite base greater than 1, which is what both calls of the source
  pass (\<open>1 + annualReturn\<close> and \<open>1 + monthlyReturn\<close>).
\<close>

fun js_pow :: "real \<Rightarrow> jsnum \<Rightarrow> jsnum" where
  "js_pow b (Num y) = Num (b powr y)"
| "js_pow b PosInf = PosInf"
| "js_pow b NegInf = Num 0"
| "js_pow b NaN = NaN"

text \<open>Truthiness of a number: \<open>0\<close> and \<open>NaN\<close> are falsy.\<close>

fun truthy :: "jsnum \<Rightarrow> bool" where
  "truthy (Num a) = (a \<noteq> 0)"
| "truthy NaN = False"
| "truthy x = True"

text \<open>An optional field read in a condition, and \<open>field || d\<close>.\<close>

fun truthy_opt :: "jsnum option \<Rightarrow> bool" where
  "truthy_opt None = False"
| "truthy_opt (Some x) = truthy x"

fun or_else :: "jsnum option \<Rightarrow> jsnum \<Rightarrow> jsnum" where
  "or_else None d = d"
| "or_else (Some x) d = (if truthy x then x else d)"

section \<open>The financial calculators\<close>

record BudgetPlan =
  totalIncome :: jsnum
  needs :: jsnum
  wants :: jsnum
  savings :: jsnum
  needsPercentage :: jsnum
  wantsPercentage :: jsnum
  savingsPercentage :: jsnum

record RetirementPlan =
  yearsToRetirement :: jsnum
  monthlyContribution :: jsnum
  projectedRetirementFund :: jsnum
  monthlyIncomeAtRetirement :: jsnum

record EmergencyFundPlan =
  targetAmount :: jsnum
  currentAmount :: jsnum
  monthsToGoal :: jsnum
  monthlySavingsNeeded :: jsnum

record DebtPayoff =
  monthsToPayoff :: jsnum
  totalInterest :: jsnum
  totalPaid :: jsnum

definition calculateBudget :: "jsnum \<Rightarrow> BudgetPlan" where
  "calculateBudget inc =
     \<lparr> totalIncome = inc,
       needs = js_mul inc (Num 0.5),
       wants = js_mul inc (Num 0.3),
       savings = js_mul inc (Num 0.2),
       needsPercentage = Num 50,
       wantsPercentage = Num 30,
       savingsPercentage = Num 20 \<rparr>"

definition calculateRetirementPlan ::
  "jsnum \<Rightarrow> jsnum \<Rightarrow> jsnum \<Rightarrow> jsnum \<Rightarrow> jsnum \<Rightarrow> RetirementPlan" where
  "calculateRetirementPlan currentAge retirementAge curSavings monthlyIncome contributionRate =
     (let years = js_sub retirementAge currentAge;
          contribution = js_mul monthlyIncome contributionRate;
          annualReturn = 0.07;
          monthlyReturn = annualReturn / 12;
          futureValueCurrent = js_mul curSavings (js_pow (1 + annualReturn) years);
          futureValueContributions =
            js_mul contribution
              (js_div
                 (js_sub (js_pow (1 + monthlyReturn) (js_mul years (Num 12))) (Num 1))
                 (Num monthlyReturn));
          fund = js_add futureValueCurrent futureValueContributions
      in \<lparr> yearsToRetirement = years,
           monthlyContribution = contribution,
           projectedRetirementFund = fund,
           monthlyIncomeAtRetirement = js_div (js_mul fund (Num 0.04)) (Num 12) \<rparr>)"

text \<open>The default \<open>contributionRate = 0.15\<close> and \<open>targetMonths = 6\<close> of the source.\<close>

definition defaultContributionRate :: jsnum where
  "defaultContributionRate = Num 0.15"

definition defaultTargetMonths :: jsnum where
  "defaultTargetMonths = Num 6"

definition calculateEmergencyFund :: "jsnum \<Rightarrow> jsnum \<Rightarrow> jsnum \<Rightarrow> jsnum \<Rightarrow> EmergencyFundPlan" where
  "calculateEmergencyFund monthlyExpenses curSavings monthlyIncome targetMonths =
     (let target = js_mul monthlyExpenses targetMonths;
          remainingAmount = js_max (Num 0) (js_sub target curSavings);
          availableForSavings = js_mul monthlyIncome (Num 0.1);
          months = (if js_gt remainingAmount (Num 0)
                    then js_ceil (js_div remainingAmount availableForSavings)
                    else Num 0)
      in \<lparr> targetAmount = target,
           currentAmount = curSavings,
           monthsToGoal = months,
           monthlySavingsNeeded = availableForSavings \<rparr>)"

definition calculateDebtPayoff :: "jsnum \<Rightarrow> jsnum \<Rightarrow> jsnum \<Rightarrow> DebtPayoff" where
  "calculateDebtPayoff balance interestRate monthlyPayment =
     (if js_le monthlyPayment (js_div (js_mul balance interestRate) (Num 12))
      then \<lparr> monthsToPayoff = PosInf, totalInterest = PosInf, totalPaid = PosInf \<rparr>
      else
        let monthlyRate = js_div interestRate (Num 12);
            months =
              js_ceil
                (js_div
                   (js_neg (js_log (js_sub (Num 1)
                      (js_div (js_mul balance monthlyRate) monthlyPayment))))
                   (js_log (js_add (Num 1) monthlyRate)));
            paid = js_mul months monthlyPayment;
            interest = js_sub paid balance
        in \<lparr> monthsToPayoff = months, totalInterest = interest, totalPaid = paid \<rparr>)"

section \<open>Text\<close>

text \<open>
  A string is the list of its code units, for texts whose code units are below 256
  (ASCII and the Latin-1 supplement). \<open>toLowerCase\<close> maps \<open>A\<close>-\<open>Z\<close> and the
  Latin-1 capitals to their small letters; \<open>\d\<close> is \<open>0\<close>-\<open>9\<close>; \<open>\s\<close> is tab,
  line feed, vertical tab, form feed, carriage return, space and no-break space.
\<close>

definition isDigit :: "char \<Rightarrow> bool" where
  "isDigit c = (48 \<le> (of_char c :: nat) \<and> (of_char c :: nat) \<le> 57)"

definition isSpace :: "char \<Rightarrow> bool" where
  "isSpace c = ((of_char c :: nat) \<in> {9, 10, 11, 12, 13, 32, 160})"

definition toLower :: "char \<Rightarrow> char" where
  "toLower c =
     (let n = (of_char c :: nat)
      in if (65 \<le> n \<and> n \<le> 90) \<or> (192 \<le> n \<and> n \<le> 222 \<and> n \<noteq> 215)
         then char_of (n + 32) else c)"

definition toLowerCase :: "string \<Rightarrow> string" where
  "toLowerCase s = map toLower s"

fun startsWith :: "string \<Rightarrow> string \<Rightarrow> bool" where
  "startsWith s [] = True"
| "startsWith [] (k # ks) = False"
| "startsWith (c # cs) (k # ks) = (c = k \<and> startsWith cs ks)"

text \<open>\<open>s.includes(k)\<close>: \<open>k\<close> occurs in \<open>s\<close> as a contiguous substring.\<close>

fun js_includes :: "string \<Rightarrow> string \<Rightarrow> bool" where
  "js_includes [] k = (k = [])"
| "js_includes (c # cs) k = (startsWith (c # cs) k \<or> js_includes cs k)"

text \<open>
  \<open>parseInt\<close> on a string of decimal digits, the only strings the source passes to it:
  the value of the leading digits, \<open>NaN\<close> when there is none.
\<close>

definition digitValue :: "char \<Rightarrow> nat" where
  "digitValue c = of_char c - 48"

definition parseInt :: "string \<Rightarrow> jsnum" where
  "parseInt s =
     (let ds = takeWhile isDigit s
      in if ds = [] then NaN
         else Num (real (foldl (\<lambda>n c. 10 * n + digitValue c) 0 ds)))"

text \<open>
  The first match of \<open>/\$?[\d,]+/\<close>: at the leftmost position where it matches, an
  optional \<open>$\<close> and the longest run of digits and commas after it.
\<close>

definition isNumberChar :: "char \<Rightarrow> bool" where
  "isNumberChar c = (isDigit c \<or> c = CHR '','')"

fun findNumberToken :: "string \<Rightarrow> string option" where
  "findNumberToken [] = None"
| "findNumberToken (c # cs) =
     (if c = CHR ''$'' \<and> takeWhile isNumberChar cs \<noteq> []
      then Some (c # takeWhile isNumberChar cs)
      else if isNumberChar c then Some (takeWhile isNumberChar (c # cs))
      else findNumberToken cs)"

definition extractNumberFromText :: "string \<Rightarrow> jsnum option" where
  "extractNumberFromText text =
     (case findNumberToken text of
        Some tok \<Rightarrow> Some (parseInt (filter (\<lambda>c. c \<noteq> CHR ''$'' \<and> c \<noteq> CHR '','') tok))
      | None \<Rightarrow> None)"

text \<open>
  The age pattern \<open>/(\d+)\s*years?\s*old|age\s*(\d+)|i'm\s*(\d+)/i\<close>. Each alternative
  is tried at a position in this order, and the positions from left to right; the result
  is the text of the one group that took part in the match. Greedy matching takes the
  longest run of digits and of white space, and no shorter run can match, since the
  character after a shorter run is again a digit or a space.
\<close>

definition startsWithIgnoreCase :: "string \<Rightarrow> string \<Rightarrow> bool" where
  "startsWithIgnoreCase s k = startsWith (map toLower (take (length k) s)) k"

definition ageAlt1 :: "string \<Rightarrow> string option" where
  "ageAlt1 s =
     (let ds = takeWhile isDigit s;
          r1 = dropWhile isSpace (dropWhile isDigit s)
      in if ds \<noteq> [] \<and> startsWithIgnoreCase r1 ''year''
         then
           let r2 = drop 4 r1;
               r3 = (if startsWithIgnoreCase r2 ''s'' then drop 1 r2 else r2);
               r4 = dropWhile isSpace r3
           in if startsWithIgnoreCase r4 ''old'' then Some ds else None
         else None)"

definition ageAlt2 :: "string \<Rightarrow> string option" where
  "ageAlt2 s =
     (if startsWithIgnoreCase s ''age''
      then let ds = takeWhile isDigit (dropWhile isSpace (drop 3 s))
           in if ds \<noteq> [] then Some ds else None
      else None)"

definition ageAlt3 :: "string \<Rightarrow> string option" where
  "ageAlt3 s =
     (if startsWithIgnoreCase s ''i'm''
      then let ds = takeWhile isDigit (dropWhile isSpace (drop 3 s))
           in if ds \<noteq> [] then Some ds else None
      else None)"

definition ageMatchAt :: "string \<Rightarrow> string option" where
  "ageMatchAt s =
     (case ageAlt1 s of
        Some g \<Rightarrow> Some g
      | None \<Rightarrow> (case ageAlt2 s of Some g \<Rightarrow> Some g | None \<Rightarrow> ageAlt3 s))"

fun ageMatch :: "string \<Rightarrow> string option" where
  "ageMatch [] = ageMatchAt []"
| "ageMatch (c # cs) =
     (case ageMatchAt (c # cs) of Some g \<Rightarrow> Some g | None \<Rightarrow> ageMatch cs)"

section \<open>Currency text\<close>

text \<open>
  \<open>formatCurrency\<close>: US dollars with no fraction digits. A finite amount is rounded to
  the nearest integer, halves away from zero, and its digits are grouped in threes; a
  negative amount carries a leading minus sign. The texts for the non-finite values hold
  characters outside the strings modelled here and are kept as constructors.
\<close>

datatype currency_text =
    Currency string
  | CurrencyInfinity
  | CurrencyNegInfinity
  | CurrencyNaN

definition digitChar :: "nat \<Rightarrow> char" where
  "digitChar d = char_of (48 + d)"

fun decimal :: "nat \<Rightarrow> string" where
  "decimal n = (if n < 10 then [digitChar n] else decimal (n div 10) @ [digitChar (n mod 10)])"

fun group3 :: "string \<Rightarrow> string" where
  "group3 ds =
     (if length ds \<le> 3 then ds
      else group3 (take (length ds - 3) ds) @ '','' @ drop (length ds - 3) ds)"

definition roundHalfExpand :: "real \<Rightarrow> nat" where
  "roundHalfExpand a = nat \<lfloor>\<bar>a\<bar> + 1 / 2\<rfloor>"

fun formatCurrency :: "jsnum \<Rightarrow> currency_text" where
  "formatCurrency (Num a) =
     Currency ((if a < 0 then ''-$'' else ''$'') @ group3 (decimal (roundHalfExpand a)))"
| "formatCurrency PosInf = CurrencyInfinity"
| "formatCurrency NegInf = CurrencyNegInfinity"
| "formatCurrency NaN = CurrencyNaN"

section \<open>The conversation context and the router\<close>

datatype RiskTolerance = Low | Medium | High

record UserFinancialData =
  income :: "jsnum option"
  expenses :: "jsnum option"
  age :: "jsnum option"
  retirementAge :: "jsnum option"
  currentSavings :: "jsnum option"
  debt :: "jsnum option"
  riskTolerance :: "RiskTolerance option"
  goals :: "string list option"

datatype ConversationState = Greeting | GatheringInfo | ProvidingAdvice

record ChatContext =
  userData :: UserFinancialData
  conversationState :: ConversationState
  lastTopic :: string

text \<open>The state the component is created with.\<close>

definition initialContext :: ChatContext where
  "initialContext =
     \<lparr> userData = \<lparr> income = None, expenses = None, age = None, retirementAge = None,
                    currentSavings = None, debt = None, riskTolerance = None, goals = None \<rparr>,
       conversationState = Greeting,
       lastTopic = [] \<rparr>"

text \<open>
  The replies. Each constructor is one template literal of the router; its arguments are
  the values the template interpolates, in the order of the text.
\<close>

datatype response =
    GreetingMenu
  | BudgetPlanText currency_text currency_text currency_text currency_text
  | BudgetAskIncome
  | RetirementPlanText jsnum currency_text currency_text currency_text
  | RetirementAskAgeIncome
  | EmergencyPlanText currency_text currency_text jsnum
  | EmergencyAskIncome
  | DebtPlanText currency_text currency_text jsnum currency_text
                 currency_text jsnum currency_text currency_text
  | DebtAskAmount
  | InvestmentText jsnum jsnum
  | BabySteps
  | GenericPrompt

text \<open>A field that is present and truthy, as \<open>if (field)\<close> tests it.\<close>

fun present :: "jsnum option \<Rightarrow> jsnum option" where
  "present None = None"
| "present (Some x) = (if truthy x then Some x else None)"

text \<open>The income keywords, tested on the lowered message.\<close>

definition mentionsIncome :: "string \<Rightarrow> bool" where
  "mentionsIncome message =
     (js_includes message ''income'' \<or> js_includes message ''salary'' \<or>
      js_includes message ''make'' \<or> js_includes message ''earn'')"

text \<open>Whether a reply is the computed retirement projection.\<close>

fun isRetirementProjection :: "response \<Rightarrow> bool" where
  "isRetirementProjection (RetirementPlanText y c f m) = True"
| "isRetirementProjection r = False"

text \<open>
  \<open>getBeginnerFriendlyResponse\<close>. The component's state is passed in and returned: the
  reads of \<open>chatContext\<close> in the branches see the state the component was rendered
  with, that is the state before this message, while each \<open>setChatContext\<close> call queues
  an update of the previous state; the updates are applied in the order of the calls and
  give the state the next message is answered with.
\<close>

definition getBeginnerFriendlyResponse :: "string \<Rightarrow> ChatContext \<Rightarrow> response \<times> ChatContext" where
  "getBeginnerFriendlyResponse userMessage chatContext =
     (let message = toLowerCase userMessage;
          extracted = extractNumberFromText userMessage;
          s1 = (if truthy_opt extracted \<and> mentionsIncome message
                then chatContext
                       \<lparr> userData := (userData chatContext) \<lparr> income := extracted \<rparr>,
                         conversationState := GatheringInfo \<rparr>
                else chatContext);
          s2 = (case ageMatch userMessage of
                  Some g \<Rightarrow> s1 \<lparr> userData := (userData s1) \<lparr> age := Some (parseInt g) \<rparr> \<rparr>
                | None \<Rightarrow> s1);
          known = userData chatContext
      in
      if js_includes message ''hello'' \<or> js_includes message ''hi'' \<or> js_includes message ''help''
      then (GreetingMenu, s2)
      else if js_includes message ''budget'' \<or> js_includes message ''spending'' \<or>
              js_includes message ''money''
      then
        (case present (income known) of
           Some inc \<Rightarrow>
             let budget = calculateBudget inc
             in (BudgetPlanText (formatCurrency inc) (formatCurrency (needs budget))
                   (formatCurrency (wants budget)) (formatCurrency (savings budget)), s2)
         | None \<Rightarrow> (BudgetAskIncome, s2 \<lparr> lastTopic := ''budget'' \<rparr>))
      else if js_includes message ''retire'' \<or> js_includes message ''pension'' \<or>
              js_includes message ''401k''
      then
        (case (present (income known), present (age known)) of
           (Some inc, Some a) \<Rightarrow>
             let retirementPlan =
                   calculateRetirementPlan a (Num 65) (or_else (currentSavings known) (Num 0)) inc
                     defaultContributionRate
             in (RetirementPlanText (yearsToRetirement retirementPlan)
                   (formatCurrency (monthlyContribution retirementPlan))
                   (formatCurrency (projectedRetirementFund retirementPlan))
                   (formatCurrency (monthlyIncomeAtRetirement retirementPlan)), s2)
         | _ \<Rightarrow> (RetirementAskAgeIncome, s2 \<lparr> lastTopic := ''retirement'' \<rparr>))
      else if js_includes message ''emergency'' \<or>
              (js_includes message ''savings'' \<and> \<not> js_includes message ''retirement'')
      then
        (case present (income known) of
           Some inc \<Rightarrow>
             let monthlyExpenses = or_else (expenses known) (js_mul inc (Num 0.8));
                 emergencyPlan =
                   calculateEmergencyFund monthlyExpenses (or_else (currentSavings known) (Num 0))
                     inc defaultTargetMonths
             in (EmergencyPlanText (formatCurrency (targetAmount emergencyPlan))
                   (formatCurrency (monthlySavingsNeeded emergencyPlan))
                   (monthsToGoal emergencyPlan), s2)
         | None \<Rightarrow> (EmergencyAskIncome, s2))
      else if js_includes message ''debt'' \<or> js_includes message ''loan'' \<or>
              js_includes message ''credit''
      then
        (case present (extractNumberFromText userMessage) of
           Some debtAmount \<Rightarrow>
             let interestRate = Num 0.18;
                 minimumPayment = js_mul debtAmount (Num 0.02);
                 aggressivePayment = js_mul minimumPayment (Num 2);
                 minPayoff = calculateDebtPayoff debtAmount interestRate minimumPayment;
                 aggressivePayoff = calculateDebtPayoff debtAmount interestRate aggressivePayment
             in (DebtPlanText (formatCurrency debtAmount)
                   (formatCurrency minimumPayment)
                   (js_round (js_div (monthsToPayoff minPayoff) (Num 12)))
                   (formatCurrency (totalInterest minPayoff))
                   (formatCurrency aggressivePayment)
                   (js_round (js_div (monthsToPayoff aggressivePayoff) (Num 12)))
                   (formatCurrency (totalInterest aggressivePayoff))
                   (formatCurrency
                      (js_sub (totalInterest minPayoff) (totalInterest aggressivePayoff))), s2)
         | None \<Rightarrow> (DebtAskAmount, s2))
      else if js_includes message ''invest'' \<or> js_includes message ''stock'' \<or>
              js_includes message ''portfolio''
      then
        (let a = or_else (age known) (Num 30);
             stockAllocation = js_min (Num 90) (js_sub (Num 100) a);
             bondAllocation = js_sub (Num 100) stockAllocation
         in (InvestmentText stockAllocation bondAllocation, s2))
      else if js_includes message ''start'' \<or> js_includes message ''begin'' \<or>
              js_includes message ''new'' \<or> js_includes message ''first''
      then (BabySteps, s2)
      else (GenericPrompt, s2))"

text \<open>
  A session: the messages are answered one after the other, each with the state the one
  before it left.
\<close>

fun session :: "ChatContext \<Rightarrow> string list \<Rightarrow> ChatContext" where
  "session c [] = c"
| "session c (m # ms) = session (snd (getBeginnerFriendlyResponse m c)) ms"

section \<open>Properties of the calculators\<close>

text \<open>
  C1. For every finite income \<open>x\<close>, \<open>calculateBudget\<close> returns needs \<open>0.5 x\<close>, wants
  \<open>0.3 x\<close> and savings \<open>0.2 x\<close>, the three amounts add up to \<open>x\<close> (exactly, in exact
  arithmetic), and the percentage fields are 50, 30 and 20 whatever the income is,
  finite or not.
\<close>

theorem calculateBudget_split:
  "needs (calculateBudget (Num x)) = Num (0.5 * x) \<and>
   wants (calculateBudget (Num x)) = Num (0.3 * x) \<and>
   savings (calculateBudget (Num x)) = Num (0.2 * x) \<and>
   js_add (js_add (needs (calculateBudget (Num x))) (wants (calculateBudget (Num x))))
          (savings (calculateBudget (Num x))) = Num x \<and>
   needsPercentage (calculateBudget i) = Num 50 \<and>
   wantsPercentage (calculateBudget i) = Num 30 \<and>
   savingsPercentage (calculateBudget i) = Num 20"
  by (simp add: calculateBudget_def algebra_simps)

subsection \<open>Debt payoff\<close>

text \<open>
  The lemmas of this subsection are about the formula of \<open>calculateDebtPayoff\<close> in exact
  arithmetic. The source evaluates it in doubles, where the products, the quotients and
  the two logarithms are rounded before \<open>Math.ceil\<close> and the comparison of the guard
  see them; what the rounding changes at a boundary is not part of the model.
\<close>

text \<open>
  When the payment exceeds the monthly interest of a non-negative balance, the payment is
  positive and the argument of the logarithm lies in \<open>(0, 1]\<close>.
\<close>

lemma debt_arg_pos:
  fixes b r p :: real
  assumes "0 \<le> b" "0 \<le> r" "b * r / 12 < p"
  shows "0 < p" "0 < 1 - b * (r / 12) / p" "1 - b * (r / 12) / p \<le> 1"
proof -
  have i: "0 \<le> b * r / 12" using assms by simp
  then show p: "0 < p" using assms by linarith
  have "b * (r / 12) / p < 1" using assms p by (simp add: field_simps)
  then show "0 < 1 - b * (r / 12) / p" by simp
  have "0 \<le> b * (r / 12) / p" using assms p by simp
  then show "1 - b * (r / 12) / p \<le> 1" by simp
qed

lemma debt_amortizing:
  assumes "0 \<le> b" "0 < r" "b * r / 12 < p"
  shows "calculateDebtPayoff (Num b) (Num r) (Num p) =
    \<lparr> monthsToPayoff = Num (of_int \<lceil>- ln (1 - b * (r / 12) / p) / ln (1 + r / 12)\<rceil>),
      totalInterest = Num (of_int \<lceil>- ln (1 - b * (r / 12) / p) / ln (1 + r / 12)\<rceil> * p - b),
      totalPaid = Num (of_int \<lceil>- ln (1 - b * (r / 12) / p) / ln (1 + r / 12)\<rceil> * p) \<rparr>"
proof -
  have p: "0 < p" and a: "0 < 1 - b * (r / 12) / p"
    using debt_arg_pos[of b r p] assms by simp_all
  have l: "ln (1 + r / 12) \<noteq> 0" using assms by simp
  have g: "\<not> p \<le> b * r / 12" using assms by simp
  show ?thesis
    using p a l g assms(2) by (simp add: calculateDebtPayoff_def js_sub_def Let_def)
qed

lemma ln_ratio: "ln (100 / 101 :: real) = - ln (101 / 100)"
proof -
  have "ln (100 / 101 :: real) = ln (inverse (101 / 100))" by simp
  also have "\<dots> = - ln (101 / 100)" by (rule ln_inverse)
  finally show ?thesis .
qed

text \<open>A balance of 1000 at 12 percent: the payments 1010 and 2000 both take one month.\<close>

lemma payoff_months_1010:
  "\<lceil>- ln (1 - 1000 * (0.12 / 12) / 1010 :: real) / ln (1 + 0.12 / 12)\<rceil> = 1"
proof -
  have l: "0 < ln (101 / 100 :: real)" by simp
  have "(1 - 1000 * (0.12 / 12) / 1010 :: real) = 100 / 101" by simp
  moreover have "(1 + 0.12 / 12 :: real) = 101 / 100" by simp
  ultimately have "- ln (1 - 1000 * (0.12 / 12) / 1010 :: real) / ln (1 + 0.12 / 12) = 1"
    using l by (simp add: ln_ratio)
  then show ?thesis by simp
qed

lemma payoff_months_2000:
  "\<lceil>- ln (1 - 1000 * (0.12 / 12) / 2000 :: real) / ln (1 + 0.12 / 12)\<rceil> = 1"
proof -
  have l: "0 < ln (101 / 100 :: real)" by simp
  have e: "(1 - 1000 * (0.12 / 12) / 2000 :: real) = 199 / 200" by simp
  have e': "(1 + 0.12 / 12 :: real) = 101 / 100" by simp
  have "ln (100 / 101 :: real) \<le> ln (199 / 200)" by (subst ln_le_cancel_iff) simp_all
  then have u: "- ln (199 / 200 :: real) \<le> ln (101 / 100)" by (simp add: ln_ratio)
  have "ln (199 / 200 :: real) < 0" by (subst ln_less_zero_iff) simp_all
  then have "ln (199 / 200 :: real) / ln (101 / 100) < 0" using l by (rule divide_neg_pos)
  then have lo: "0 < - ln (199 / 200 :: real) / ln (101 / 100)" by simp
  have hi: "- ln (199 / 200 :: real) / ln (101 / 100) \<le> 1" using u l by (simp add: field_simps)
  have "\<lceil>- ln (199 / 200 :: real) / ln (101 / 100)\<rceil> = 1"
    by (rule ceiling_unique) (use lo hi in simp_all)
  then show ?thesis by (simp only: e e')
qed

text \<open>
  C7 as stated fails for \<open>totalInterest\<close>: with balance 1000 and rate 0.12, raising the
  payment from 1010 to 2000 (both above the monthly interest of 10) raises
  \<open>totalInterest\<close> from 10 to 1000, because the number of months, rounded up, stays 1
  and is multiplied by the larger payment.
\<close>

theorem debt_interest_not_monotone:
  "(0::real) < 1000 \<and> (0::real) < 0.12 \<and> (1000::real) * 0.12 / 12 < 1010 \<and> (1010::real) < 2000 \<and>
   totalInterest (calculateDebtPayoff (Num 1000) (Num 0.12) (Num 1010)) = Num 10 \<and>
   totalInterest (calculateDebtPayoff (Num 1000) (Num 0.12) (Num 2000)) = Num 1000 \<and>
   \<not> js_le (totalInterest (calculateDebtPayoff (Num 1000) (Num 0.12) (Num 2000)))
            (totalInterest (calculateDebtPayoff (Num 1000) (Num 0.12) (Num 1010)))"
proof -
  have d1: "totalInterest (calculateDebtPayoff (Num 1000) (Num 0.12) (Num 1010)) = Num 10"
    using debt_amortizing[of 1000 "0.12" 1010] payoff_months_1010 by simp
  have d2: "totalInterest (calculateDebtPayoff (Num 1000) (Num 0.12) (Num 2000)) = Num 1000"
    using debt_amortizing[of 1000 "0.12" 2000] payoff_months_2000 by simp
  show ?thesis using d1 d2 by simp
qed

text \<open>
  C7, as amended. For a finite balance \<open>b > 0\<close> and rate \<open>r > 0\<close>, over payments above
  \<open>b r / 12\<close>, a larger payment never gives a larger \<open>monthsToPayoff\<close>: both results
  are finite whole numbers and the one of the larger payment is at most the other.
  Nothing of the kind is stated of \<open>totalInterest\<close>.
\<close>

theorem debt_months_antimono:
  assumes "0 < b" "0 < r" "b * r / 12 < p1" "p1 \<le> p2"
  shows "(\<exists>m1 m2. monthsToPayoff (calculateDebtPayoff (Num b) (Num r) (Num p1)) = Num (of_int m1) \<and>
                  monthsToPayoff (calculateDebtPayoff (Num b) (Num r) (Num p2)) = Num (of_int m2) \<and>
                  m2 \<le> m1) \<and>
         js_le (monthsToPayoff (calculateDebtPayoff (Num b) (Num r) (Num p2)))
               (monthsToPayoff (calculateDebtPayoff (Num b) (Num r) (Num p1)))"
proof -
  have b0: "0 \<le> b" using assms by simp
  have lt2: "b * r / 12 < p2" using assms by simp
  have p1: "0 < p1" and a1: "0 < 1 - b * (r / 12) / p1"
    using debt_arg_pos[OF b0 _ assms(3)] assms(2) by simp_all
  have p2: "0 < p2" and a2: "0 < 1 - b * (r / 12) / p2"
    using debt_arg_pos[OF b0 _ lt2] assms(2) by simp_all
  have "b * (r / 12) / p2 \<le> b * (r / 12) / p1"
    using assms p1 p2 by (simp add: frac_le)
  then have "1 - b * (r / 12) / p1 \<le> 1 - b * (r / 12) / p2" by simp
  then have "ln (1 - b * (r / 12) / p1) \<le> ln (1 - b * (r / 12) / p2)"
    using a1 a2 by simp
  moreover have "0 < ln (1 + r / 12)" using assms by simp
  ultimately have "- ln (1 - b * (r / 12) / p2) / ln (1 + r / 12)
      \<le> - ln (1 - b * (r / 12) / p1) / ln (1 + r / 12)"
    by (simp add: divide_right_mono)
  then have "\<lceil>- ln (1 - b * (r / 12) / p2) / ln (1 + r / 12)\<rceil>
      \<le> \<lceil>- ln (1 - b * (r / 12) / p1) / ln (1 + r / 12)\<rceil>"
    by (simp add: ceiling_mono)
  then show ?thesis
    using debt_amortizing[OF b0 assms(2) assms(3)] debt_amortizing[OF b0 assms(2) lt2]
    by simp
qed

theorem debt_months_antimono_witness:
  "(0::real) < 1000 \<and> (0::real) < 0.12 \<and> (1000::real) * 0.12 / 12 < 1010 \<and> (1010::real) \<le> 2000 \<and>
   js_le (monthsToPayoff (calculateDebtPayoff (Num 1000) (Num 0.12) (Num 2000)))
         (monthsToPayoff (calculateDebtPayoff (Num 1000) (Num 0.12) (Num 1010)))"
  using debt_months_antimono [of 1000 "0.12" 1010 2000]
  by simp

subsection \<open>Retirement projection\<close>

text \<open>The projected fund for finite arguments, as one formula.\<close>

lemma retirement_fund_value:
  "projectedRetirementFund
     (calculateRetirementPlan (Num a) (Num ra) (Num cs) (Num mi) (Num cr)) =
   Num (cs * (1 + 0.07) powr (ra - a) +
        mi * cr * (((1 + 0.07 / 12) powr ((ra - a) * 12) - 1) / (0.07 / 12)))"
  by (simp add: calculateRetirementPlan_def Let_def js_sub_def)

lemma annuity_factor_mono:
  fixes y y' :: real
  assumes "y \<le> y'"
  shows "((1 + 0.07 / 12) powr (y * 12) - 1) / (0.07 / 12)
       \<le> ((1 + 0.07 / 12) powr (y' * 12) - 1) / (0.07 / 12 :: real)"
proof -
  have "(1 + 0.07 / 12 :: real) powr (y * 12) \<le> (1 + 0.07 / 12) powr (y' * 12)"
    using assms by (intro powr_mono) simp_all
  then show ?thesis by (simp add: divide_right_mono)
qed

lemma annuity_factor_strict:
  fixes y y' :: real
  assumes "y < y'"
  shows "((1 + 0.07 / 12) powr (y * 12) - 1) / (0.07 / 12)
       < ((1 + 0.07 / 12) powr (y' * 12) - 1) / (0.07 / 12 :: real)"
proof -
  have "(1 + 0.07 / 12 :: real) powr (y * 12) < (1 + 0.07 / 12) powr (y' * 12)"
    using assms by (intro powr_less_mono) simp_all
  then show ?thesis by (simp add: divide_strict_right_mono)
qed

lemma annuity_factor_nonneg:
  fixes y :: real
  assumes "0 \<le> y"
  shows "0 \<le> ((1 + 0.07 / 12) powr (y * 12) - 1) / (0.07 / 12 :: real)"
proof -
  have "(1 + 0.07 / 12 :: real) powr 0 \<le> (1 + 0.07 / 12) powr (y * 12)"
    using assms by (intro powr_mono) simp_all
  then show ?thesis by simp
qed

text \<open>
  C8 as stated fails: a negative \<open>contributionRate\<close> is not excluded, and with income
  1000, no savings and rate \<open>-0.15\<close> the projected fund for a horizon of two years
  (age 63) is below the one for a horizon of one year (age 64).
\<close>

theorem retirement_fund_negative_rate:
  "(0::real) \<le> 1000 \<and> (0::real) \<le> 0 \<and> (0::real) < 65 - 64 \<and> (65 - 64 :: real) < 65 - 63 \<and>
   \<not> js_le (projectedRetirementFund
               (calculateRetirementPlan (Num 64) (Num 65) (Num 0) (Num 1000) (Num (- 0.15))))
            (projectedRetirementFund
               (calculateRetirementPlan (Num 63) (Num 65) (Num 0) (Num 1000) (Num (- 0.15))))"
proof -
  have "((1 + 0.07 / 12) powr ((65 - 64) * 12) - 1) / (0.07 / 12)
      < ((1 + 0.07 / 12) powr ((65 - 63) * 12) - 1) / (0.07 / 12 :: real)"
    by (rule annuity_factor_strict) simp
  then have "1000 * (- 0.15) * (((1 + 0.07 / 12) powr ((65 - 63) * 12) - 1) / (0.07 / 12))
      < 1000 * (- 0.15) * (((1 + 0.07 / 12) powr ((65 - 64) * 12) - 1) / (0.07 / 12 :: real))"
    by (intro mult_strict_left_mono_neg) simp_all
  then have "\<not> (0 * (1 + 0.07) powr (65 - 64) +
           1000 * (- 0.15) * (((1 + 0.07 / 12) powr ((65 - 64) * 12) - 1) / (0.07 / 12))
        \<le> 0 * (1 + 0.07) powr (65 - 63) +
           1000 * (- 0.15) * (((1 + 0.07 / 12) powr ((65 - 63) * 12) - 1) / (0.07 / 12 :: real)))"
    by (simp only: mult_zero_left add_0_left not_le)
  then have "\<not> js_le (projectedRetirementFund
               (calculateRetirementPlan (Num 64) (Num 65) (Num 0) (Num 1000) (Num (- 0.15))))
            (projectedRetirementFund
               (calculateRetirementPlan (Num 63) (Num 65) (Num 0) (Num 1000) (Num (- 0.15))))"
    by (simp only: retirement_fund_value js_le.simps not_False_eq_True)
  then show ?thesis by simp
qed

text \<open>
  C8, as amended. For finite arguments with a positive horizon
  \<open>retirementAge - currentAge\<close>, a non-negative \<open>monthlyIncome\<close> and non-negative
  \<open>currentSavings\<close>, the projected fund does not decrease when \<open>contributionRate\<close>
  grows, when \<open>currentSavings\<close> grows, and, for a non-negative \<open>contributionRate\<close>,
  when the horizon grows; the other arguments are held fixed. The increase is strict in
  \<open>contributionRate\<close> when the income is positive, in \<open>currentSavings\<close> always, and
  in the horizon when the savings are positive.
\<close>

theorem retirement_fund_monotone:
  assumes "0 \<le> mi" "0 \<le> cs" "0 < ra - a"
  shows "(cr \<le> cr' \<longrightarrow>
            js_le (projectedRetirementFund (calculateRetirementPlan (Num a) (Num ra) (Num cs) (Num mi) (Num cr)))
                  (projectedRetirementFund (calculateRetirementPlan (Num a) (Num ra) (Num cs) (Num mi) (Num cr')))) \<and>
         (cs \<le> cs' \<longrightarrow>
            js_le (projectedRetirementFund (calculateRetirementPlan (Num a) (Num ra) (Num cs) (Num mi) (Num cr)))
                  (projectedRetirementFund (calculateRetirementPlan (Num a) (Num ra) (Num cs') (Num mi) (Num cr)))) \<and>
         (0 \<le> cr \<and> ra - a \<le> ra' - a' \<longrightarrow>
            js_le (projectedRetirementFund (calculateRetirementPlan (Num a) (Num ra) (Num cs) (Num mi) (Num cr)))
                  (projectedRetirementFund (calculateRetirementPlan (Num a') (Num ra') (Num cs) (Num mi) (Num cr)))) \<and>
         (0 < mi \<and> cr < cr' \<longrightarrow>
            js_gt (projectedRetirementFund (calculateRetirementPlan (Num a) (Num ra) (Num cs) (Num mi) (Num cr')))
                  (projectedRetirementFund (calculateRetirementPlan (Num a) (Num ra) (Num cs) (Num mi) (Num cr)))) \<and>
         (cs < cs' \<longrightarrow>
            js_gt (projectedRetirementFund (calculateRetirementPlan (Num a) (Num ra) (Num cs') (Num mi) (Num cr)))
                  (projectedRetirementFund (calculateRetirementPlan (Num a) (Num ra) (Num cs) (Num mi) (Num cr)))) \<and>
         (0 \<le> cr \<and> 0 < cs \<and> ra - a < ra' - a' \<longrightarrow>
            js_gt (projectedRetirementFund (calculateRetirementPlan (Num a') (Num ra') (Num cs) (Num mi) (Num cr)))
                  (projectedRetirementFund (calculateRetirementPlan (Num a) (Num ra) (Num cs) (Num mi) (Num cr))))"
proof -
  let ?A = "\<lambda>y::real. ((1 + 0.07 / 12) powr (y * 12) - 1) / (0.07 / 12 :: real)"
  have A0: "0 \<le> ?A (ra - a)" using assms(3) by (intro annuity_factor_nonneg) simp
  have A0': "0 < ?A (ra - a)"
    using annuity_factor_strict[of 0 "ra - a"] assms(3) by simp
  have P0: "0 < (1 + 0.07 :: real) powr (ra - a)" by simp
  have c1: "mi * cr * ?A (ra - a) \<le> mi * cr' * ?A (ra - a)" if "cr \<le> cr'"
    using that assms(1) A0 by (intro mult_right_mono mult_left_mono)
  have c2: "cs * (1 + 0.07) powr (ra - a) \<le> cs' * (1 + 0.07) powr (ra - a)" if "cs \<le> cs'"
    using that by (intro mult_right_mono) simp_all
  have c3a: "cs * (1 + 0.07) powr (ra - a) \<le> cs * (1 + 0.07) powr (ra' - a')"
    if "ra - a \<le> ra' - a'"
    using that assms(2) by (intro mult_left_mono powr_mono) simp_all
  have c3b: "mi * cr * ?A (ra - a) \<le> mi * cr * ?A (ra' - a')"
    if "0 \<le> cr" "ra - a \<le> ra' - a'"
    using that assms(1) by (intro mult_left_mono annuity_factor_mono) simp_all
  have c4: "mi * cr * ?A (ra - a) < mi * cr' * ?A (ra - a)" if "0 < mi" "cr < cr'"
    using that A0' by (intro mult_strict_right_mono mult_strict_left_mono)
  have c5: "cs * (1 + 0.07) powr (ra - a) < cs' * (1 + 0.07) powr (ra - a)" if "cs < cs'"
    using that P0 by (intro mult_strict_right_mono)
  have c6: "cs * (1 + 0.07) powr (ra - a) < cs * (1 + 0.07) powr (ra' - a')"
    if "0 < cs" "ra - a < ra' - a'"
    using that by (intro mult_strict_left_mono powr_less_mono) simp_all
  show ?thesis
  proof (intro conjI impI)
    assume "cr \<le> cr'"
    then have "cs * (1 + 0.07) powr (ra - a) + mi * cr * ?A (ra - a)
        \<le> cs * (1 + 0.07) powr (ra - a) + mi * cr' * ?A (ra - a)"
      using c1 by (intro add_left_mono)
    then show "js_le (projectedRetirementFund (calculateRetirementPlan (Num a) (Num ra) (Num cs) (Num mi) (Num cr)))
                  (projectedRetirementFund (calculateRetirementPlan (Num a) (Num ra) (Num cs) (Num mi) (Num cr')))"
      by (simp only: retirement_fund_value js_le.simps)
  next
    assume "cs \<le> cs'"
    then have "cs * (1 + 0.07) powr (ra - a) + mi * cr * ?A (ra - a)
        \<le> cs' * (1 + 0.07) powr (ra - a) + mi * cr * ?A (ra - a)"
      using c2 by (intro add_right_mono)
    then show "js_le (projectedRetirementFund (calculateRetirementPlan (Num a) (Num ra) (Num cs) (Num mi) (Num cr)))
                  (projectedRetirementFund (calculateRetirementPlan (Num a) (Num ra) (Num cs') (Num mi) (Num cr)))"
      by (simp only: retirement_fund_value js_le.simps)
  next
    assume "0 \<le> cr \<and> ra - a \<le> ra' - a'"
    then have "cs * (1 + 0.07) powr (ra - a) + mi * cr * ?A (ra - a)
        \<le> cs * (1 + 0.07) powr (ra' - a') + mi * cr * ?A (ra' - a')"
      using c3a c3b by (intro add_mono) simp_all
    then show "js_le (projectedRetirementFund (calculateRetirementPlan (Num a) (Num ra) (Num cs) (Num mi) (Num cr)))
                  (projectedRetirementFund (calculateRetirementPlan (Num a') (Num ra') (Num cs) (Num mi) (Num cr)))"
      by (simp only: retirement_fund_value js_le.simps)
  next
    assume "0 < mi \<and> cr < cr'"
    then have "cs * (1 + 0.07) powr (ra - a) + mi * cr * ?A (ra - a)
        < cs * (1 + 0.07) powr (ra - a) + mi * cr' * ?A (ra - a)"
      using c4 by (intro add_strict_left_mono) simp_all
    then show "js_gt (projectedRetirementFund (calculateRetirementPlan (Num a) (Num ra) (Num cs) (Num mi) (Num cr')))
                  (projectedRetirementFund (calculateRetirementPlan (Num a) (Num ra) (Num cs) (Num mi) (Num cr)))"
      by (simp only: retirement_fund_value js_gt.simps)
  next
    assume "cs < cs'"
    then have "cs * (1 + 0.07) powr (ra - a) + mi * cr * ?A (ra - a)
        < cs' * (1 + 0.07) powr (ra - a) + mi * cr * ?A (ra - a)"
      using c5 by (intro add_strict_right_mono)
    then show "js_gt (projectedRetirementFund (calculateRetirementPlan (Num a) (Num ra) (Num cs') (Num mi) (Num cr)))
                  (projectedRetirementFund (calculateRetirementPlan (Num a) (Num ra) (Num cs) (Num mi) (Num cr)))"
      by (simp only: retirement_fund_value js_gt.simps)
  next
    assume "0 \<le> cr \<and> 0 < cs \<and> ra - a < ra' - a'"
    then have "cs * (1 + 0.07) powr (ra - a) + mi * cr * ?A (ra - a)
        < cs * (1 + 0.07) powr (ra' - a') + mi * cr * ?A (ra' - a')"
      using c6 c3b by (intro add_less_le_mono) simp_all
    then show "js_gt (projectedRetirementFund (calculateRetirementPlan (Num a') (Num ra') (Num cs) (Num mi) (Num cr)))
                  (projectedRetirementFund (calculateRetirementPlan (Num a) (Num ra) (Num cs) (Num mi) (Num cr)))"
      by (simp only: retirement_fund_value js_gt.simps)
  qed
qed

theorem retirement_fund_monotone_witness:
  "(0::real) \<le> 5000 \<and> (0::real) \<le> 10000 \<and> (0::real) < 65 - 30 \<and>
   js_le (projectedRetirementFund (calculateRetirementPlan (Num 30) (Num 65) (Num 10000) (Num 5000) (Num 0.15)))
         (projectedRetirementFund (calculateRetirementPlan (Num 30) (Num 65) (Num 10000) (Num 5000) (Num 0.2))) \<and>
   js_le (projectedRetirementFund (calculateRetirementPlan (Num 30) (Num 65) (Num 10000) (Num 5000) (Num 0.15)))
         (projectedRetirementFund (calculateRetirementPlan (Num 30) (Num 65) (Num 20000) (Num 5000) (Num 0.15))) \<and>
   js_le (projectedRetirementFund (calculateRetirementPlan (Num 30) (Num 65) (Num 10000) (Num 5000) (Num 0.15)))
         (projectedRetirementFund (calculateRetirementPlan (Num 25) (Num 65) (Num 10000) (Num 5000) (Num 0.15)))"
  using retirement_fund_monotone [where mi = 5000 and cs = 10000 and a = 30 and ra = 65 and cr = "0.15"
      and cr' = "0.2" and cs' = 20000 and a' = 25 and ra' = 65]
  by simp


section \<open>Properties of the extraction and of the router\<close>

lemmas text_defs = toLowerCase_def toLower_def extractNumberFromText_def isNumberChar_def
  isDigit_def isSpace_def parseInt_def digitValue_def ageMatchAt_def ageAlt1_def ageAlt2_def
  ageAlt3_def startsWithIgnoreCase_def mentionsIncome_def char_of_def bit_0 digitChar_def

text \<open>The three examples of the specification hold.\<close>

lemma extractNumber_examples:
  "extractNumberFromText ''I make $5,000 per month'' = Some (Num 5000) \<and>
   extractNumberFromText ''3000'' = Some (Num 3000) \<and>
   extractNumberFromText ''no numbers here'' = None"
  by (simp add: text_defs)

text \<open>
  C6. \<open>extractNumberFromText\<close> is to return the integer of the first token made of an
  optional \<open>$\<close> and digits with comma separators, and \<open>null\<close> when there is none.
  The pattern also matches a run of commas with no digit: in
  \<open>Hi, I make $5000 per month\<close> the first match is the comma after \<open>Hi\<close>, and the
  result is \<open>NaN\<close>, neither 5000 nor \<open>null\<close>.
\<close>

theorem extractNumber_comma_first:
  "extractNumberFromText ''Hi, I make $5000 per month'' = Some NaN"
  by (simp add: text_defs)

subsection \<open>The state after a message\<close>

text \<open>
  Whatever the branch, the state after a message is the state before it with the income,
  the age and the conversation state as the two updates at the top of the router set
  them, and some topic.
\<close>

lemma router_state:
  "\<exists>t. snd (getBeginnerFriendlyResponse m c) =
     c \<lparr> userData := (userData c)
            \<lparr> income := (if truthy_opt (extractNumberFromText m) \<and> mentionsIncome (toLowerCase m)
                         then extractNumberFromText m else income (userData c)),
              age := (case ageMatch m of Some g \<Rightarrow> Some (parseInt g)
                      | None \<Rightarrow> age (userData c)) \<rparr>,
         conversationState :=
           (if truthy_opt (extractNumberFromText m) \<and> mentionsIncome (toLowerCase m)
            then GatheringInfo else conversationState c),
         lastTopic := t \<rparr>"
proof -
  define r where "r \<longleftrightarrow> truthy_opt (extractNumberFromText m) \<and> mentionsIncome (toLowerCase m)"
  define s1 where "s1 =
    (if r
     then c \<lparr> userData := (userData c) \<lparr> income := extractNumberFromText m \<rparr>,
              conversationState := GatheringInfo \<rparr>
     else c)"
  define s2 where "s2 =
    (case ageMatch m of
       Some g \<Rightarrow> s1 \<lparr> userData := (userData s1) \<lparr> age := Some (parseInt g) \<rparr> \<rparr>
     | None \<Rightarrow> s1)"
  have e: "s2 \<lparr> lastTopic := t \<rparr> =
     c \<lparr> userData := (userData c)
            \<lparr> income := (if r then extractNumberFromText m else income (userData c)),
              age := (case ageMatch m of Some g \<Rightarrow> Some (parseInt g)
                      | None \<Rightarrow> age (userData c)) \<rparr>,
         conversationState := (if r then GatheringInfo else conversationState c),
         lastTopic := t \<rparr>" for t
    unfolding s2_def s1_def
    by (cases "ageMatch m"; cases r) simp_all
  define Q where "Q = (\<lambda>p :: response \<times> ChatContext. \<exists>t. snd p = s2 \<lparr> lastTopic := t \<rparr>)"
  have Q1: "Q (x, s2)" for x
    unfolding Q_def by (rule exI[of _ "lastTopic s2"]) simp
  have Q2: "Q (x, s2 \<lparr> lastTopic := u \<rparr>)" for x u
    unfolding Q_def by (rule exI[of _ u]) simp
  have Qif: "Q p \<Longrightarrow> Q q \<Longrightarrow> Q (if b then p else q)" for p q b
    by simp
  have Qopt: "Q n \<Longrightarrow> (\<And>x. Q (f x)) \<Longrightarrow> Q (case v of None \<Rightarrow> n | Some x \<Rightarrow> f x)"
    for n f and v :: "jsnum option"
    by (cases v) simp_all
  have "Q (getBeginnerFriendlyResponse m c)"
    unfolding getBeginnerFriendlyResponse_def Let_def prod.case r_def[symmetric]
      s1_def[symmetric] s2_def[symmetric]
    by (intro Qif Qopt Q1 Q2)
  then have "\<exists>t. snd (getBeginnerFriendlyResponse m c) = s2 \<lparr> lastTopic := t \<rparr>"
    unfolding Q_def .
  then show ?thesis unfolding r_def[symmetric] by (simp only: e)
qed

text \<open>
  C9. A message changes \<open>conversationState\<close> in one way only: it becomes
  \<open>gathering_info\<close> when the message holds a truthy number and an income keyword, and
  is left as it was otherwise. So from the initial context no sequence of messages
  reaches \<open>providing_advice\<close>.
\<close>

theorem router_state_transition:
  "conversationState (snd (getBeginnerFriendlyResponse m c)) =
     (if truthy_opt (extractNumberFromText m) \<and> mentionsIncome (toLowerCase m)
      then GatheringInfo else conversationState c) \<and>
   conversationState (session initialContext ms) \<noteq> ProvidingAdvice"
proof -
  have step: "conversationState (snd (getBeginnerFriendlyResponse m c)) =
     (if truthy_opt (extractNumberFromText m) \<and> mentionsIncome (toLowerCase m)
      then GatheringInfo else conversationState c)" for m c
  proof -
    obtain t where s: "snd (getBeginnerFriendlyResponse m c) =
       c \<lparr> userData := (userData c)
              \<lparr> income := (if truthy_opt (extractNumberFromText m) \<and> mentionsIncome (toLowerCase m)
                           then extractNumberFromText m else income (userData c)),
                age := (case ageMatch m of Some g \<Rightarrow> Some (parseInt g)
                        | None \<Rightarrow> age (userData c)) \<rparr>,
           conversationState :=
             (if truthy_opt (extractNumberFromText m) \<and> mentionsIncome (toLowerCase m)
              then GatheringInfo else conversationState c),
           lastTopic := t \<rparr>"
      using router_state[of m c] by blast
    show ?thesis by (subst s) simp
  qed
  have inv: "conversationState c \<noteq> ProvidingAdvice \<Longrightarrow>
             conversationState (session c ms) \<noteq> ProvidingAdvice" for c
  proof (induction ms arbitrary: c)
    case Nil
    then show ?case by simp
  next
    case (Cons m ms)
    have "conversationState (snd (getBeginnerFriendlyResponse m c)) \<noteq> ProvidingAdvice"
      using Cons.prems by (simp add: step)
    then show ?case using Cons.IH by simp
  qed
  have "conversationState initialContext \<noteq> ProvidingAdvice"
    by (simp add: initialContext_def)
  then have "conversationState (session initialContext ms) \<noteq> ProvidingAdvice"
    by (rule inv)
  then show ?thesis using step by simp
qed

text \<open>
  C10. For every message and every context, the state after the message differs from the
  state before it at most in the income and the age of \<open>userData\<close>, in
  \<open>conversationState\<close> and in \<open>lastTopic\<close>: the expenses, the retirement age, the
  current savings, the debt, the risk tolerance and the goals are unchanged.
\<close>

theorem router_frame:
  "(\<exists>i a st t. snd (getBeginnerFriendlyResponse m c) =
       c \<lparr> userData := (userData c) \<lparr> income := i, age := a \<rparr>,
           conversationState := st, lastTopic := t \<rparr>) \<and>
   expenses (userData (snd (getBeginnerFriendlyResponse m c))) = expenses (userData c) \<and>
   retirementAge (userData (snd (getBeginnerFriendlyResponse m c))) = retirementAge (userData c) \<and>
   currentSavings (userData (snd (getBeginnerFriendlyResponse m c))) = currentSavings (userData c) \<and>
   debt (userData (snd (getBeginnerFriendlyResponse m c))) = debt (userData c) \<and>
   riskTolerance (userData (snd (getBeginnerFriendlyResponse m c))) = riskTolerance (userData c) \<and>
   goals (userData (snd (getBeginnerFriendlyResponse m c))) = goals (userData c)"
proof -
  obtain t where s: "snd (getBeginnerFriendlyResponse m c) =
     c \<lparr> userData := (userData c)
            \<lparr> income := (if truthy_opt (extractNumberFromText m) \<and> mentionsIncome (toLowerCase m)
                         then extractNumberFromText m else income (userData c)),
              age := (case ageMatch m of Some g \<Rightarrow> Some (parseInt g)
                      | None \<Rightarrow> age (userData c)) \<rparr>,
         conversationState :=
           (if truthy_opt (extractNumberFromText m) \<and> mentionsIncome (toLowerCase m)
            then GatheringInfo else conversationState c),
         lastTopic := t \<rparr>"
    using router_state[of m c] by blast
  have "\<exists>i a st t. snd (getBeginnerFriendlyResponse m c) =
       c \<lparr> userData := (userData c) \<lparr> income := i, age := a \<rparr>,
           conversationState := st, lastTopic := t \<rparr>"
    by (subst s) blast
  then show ?thesis by (simp add: s)
qed

subsection \<open>The two scenarios\<close>

text \<open>
  The message of the retirement scenario, answered from the initial context: the first
  number of the text is 30, the age pattern finds 30, and the text contains \<open>help\<close>.
\<close>

lemma retirement_message:
  "getBeginnerFriendlyResponse
     ''I'm 30 years old and make $6000 per month, help me plan for retirement'' initialContext =
   (GreetingMenu,
    \<lparr> userData = \<lparr> income = Some (Num 30), expenses = None, age = Some (Num 30),
                   retirementAge = None, currentSavings = None, debt = None,
                   riskTolerance = None, goals = None \<rparr>,
      conversationState = GatheringInfo,
      lastTopic = [] \<rparr>)"
  by (simp add: getBeginnerFriendlyResponse_def text_defs initialContext_def Let_def)

text \<open>
  The branches read the context the component was rendered with. From the initial context
  no message at all, whatever age and income it states, is answered with a retirement
  projection: the facts a message states reach the context only after its reply.
\<close>

lemma no_projection_from_initialContext:
  "\<not> isRetirementProjection (fst (getBeginnerFriendlyResponse m initialContext))"
proof -
  define Q where "Q = (\<lambda>p :: response \<times> ChatContext. \<not> isRetirementProjection (fst p))"
  have Qif: "Q p \<Longrightarrow> Q q \<Longrightarrow> Q (if b then p else q)" for p q b
    by simp
  have Qopt: "Q n \<Longrightarrow> (\<And>x. Q (f x)) \<Longrightarrow> Q (case v of None \<Rightarrow> n | Some x \<Rightarrow> f x)"
    for n f and v :: "jsnum option"
    by (cases v) simp_all
  have k: "present (income (userData initialContext)) = None"
    by (simp add: initialContext_def)
  have Q0: "Q (x, s)" if "\<not> isRetirementProjection x" for x s
    using that by (simp add: Q_def)
  have "Q (getBeginnerFriendlyResponse m initialContext)"
    unfolding getBeginnerFriendlyResponse_def Let_def k option.case prod.case
    by (intro Qif Qopt Q0) simp_all
  then show ?thesis by (simp add: Q_def)
qed

text \<open>
  C4. The scenario is that the message
  \<open>I'm 30 years old and make $6000 per month, help me plan for retirement\<close>, sent in an
  empty context, stores the age 30 and the income 6000 and is answered with the computed
  retirement projection. The router does not do that: it stores 30, the first number of
  the text, as the income, and its reply is the menu of topics, not a projection.
\<close>

theorem retirement_scenario_fails:
  "income (userData (snd (getBeginnerFriendlyResponse
      ''I'm 30 years old and make $6000 per month, help me plan for retirement''
      initialContext))) \<noteq> Some (Num 6000) \<and>
   \<not> isRetirementProjection (fst (getBeginnerFriendlyResponse
      ''I'm 30 years old and make $6000 per month, help me plan for retirement''
      initialContext)) \<and>
   income (userData (snd (getBeginnerFriendlyResponse
      ''I'm 30 years old and make $6000 per month, help me plan for retirement''
      initialContext))) = Some (Num 30) \<and>
   age (userData (snd (getBeginnerFriendlyResponse
      ''I'm 30 years old and make $6000 per month, help me plan for retirement''
      initialContext))) = Some (Num 30) \<and>
   fst (getBeginnerFriendlyResponse
      ''I'm 30 years old and make $6000 per month, help me plan for retirement''
      initialContext) = GreetingMenu"
  by (simp add: retirement_message)

text \<open>The messages of the budget scenario.\<close>

lemma help_budget_message:
  "getBeginnerFriendlyResponse ''Help me create a budget'' initialContext =
     (GreetingMenu, initialContext)"
  by (simp add: getBeginnerFriendlyResponse_def text_defs initialContext_def Let_def)

lemma income_message:
  "getBeginnerFriendlyResponse ''I make $5000 per month'' c =
     (GenericPrompt,
      c \<lparr> userData := (userData c) \<lparr> income := Some (Num 5000) \<rparr>,
          conversationState := GatheringInfo \<rparr>)"
  by (simp add: getBeginnerFriendlyResponse_def text_defs Let_def)

lemma help_me_budget_message:
  "fst (getBeginnerFriendlyResponse ''help me budget'' c) = GreetingMenu"
  by (simp add: getBeginnerFriendlyResponse_def text_defs Let_def)

text \<open>
  The router's own suggestions meet the same rule: the topic \<open>Help me budget\<close> that the
  last reply of the cascade offers, and the text of the emergency fund button, are
  answered with the menu in every context.
\<close>

lemma advertised_messages:
  "fst (getBeginnerFriendlyResponse ''Help me budget'' c) = GreetingMenu \<and>
   fst (getBeginnerFriendlyResponse ''Help me start building an emergency fund'' c) =
     GreetingMenu"
  by (simp add: getBeginnerFriendlyResponse_def text_defs Let_def)

text \<open>
  The budget rule itself computes the figures of the scenario: with the income 5000 in
  the context, a budget message without a greeting keyword is answered with needs
  $2,500, wants $1,500 and savings $1,000.
\<close>

lemma budget_figures:
  "formatCurrency (Num 5000) = Currency ''$5,000'' \<and>
   formatCurrency (needs (calculateBudget (Num 5000))) = Currency ''$2,500'' \<and>
   formatCurrency (wants (calculateBudget (Num 5000))) = Currency ''$1,500'' \<and>
   formatCurrency (savings (calculateBudget (Num 5000))) = Currency ''$1,000''"
  by (simp add: calculateBudget_def roundHalfExpand_def digitChar_def char_of_def bit_0)

lemma budget_message:
  "income (userData c) = Some (Num 5000) \<Longrightarrow>
   fst (getBeginnerFriendlyResponse ''budget'' c) =
     BudgetPlanText (Currency ''$5,000'') (Currency ''$2,500'') (Currency ''$1,500'')
       (Currency ''$1,000'')"
  using budget_figures
  by (simp add: getBeginnerFriendlyResponse_def text_defs Let_def del: formatCurrency.simps)

text \<open>
  C5. The scenario is that, from an empty context, \<open>Help me create a budget\<close> is
  answered with the question for the income, that \<open>I make $5000 per month\<close> stores the
  income 5000, and that \<open>help me budget\<close> is then answered with needs $2,500, wants
  $1,500 and savings $1,000. The router stores the income, but it answers the first and
  the third message with the menu of topics: both contain \<open>help\<close>, which the greeting
  rule tests before the budget rule.
\<close>

theorem budget_scenario_fails:
  "fst (getBeginnerFriendlyResponse ''Help me create a budget'' initialContext) = GreetingMenu \<and>
   fst (getBeginnerFriendlyResponse ''Help me create a budget'' initialContext) \<noteq> BudgetAskIncome \<and>
   income (userData
     (session initialContext [''Help me create a budget'', ''I make $5000 per month''])) =
     Some (Num 5000) \<and>
   fst (getBeginnerFriendlyResponse ''help me budget''
     (session initialContext [''Help me create a budget'', ''I make $5000 per month''])) =
     GreetingMenu \<and>
   fst (getBeginnerFriendlyResponse ''help me budget''
     (session initialContext [''Help me create a budget'', ''I make $5000 per month''])) \<noteq>
     BudgetPlanText (Currency ''$5,000'') (Currency ''$2,500'') (Currency ''$1,500'')
       (Currency ''$1,000'')"
  by (simp add: help_budget_message help_me_budget_message income_message)

end
